theory Spec2Isabelle
  imports Complex_Main
begin

section \<open>The collaboration server: socket handlers\<close>

text \<open>
  The server registers three handlers on every connected socket:
  \<^verbatim>\<open>
  io.on('connection', (socket) => {
    console.log('User connected:', socket.id);
    socket.on('join-project', (projectId) => {
      socket.join(projectId);
      console.log(`User ${socket.id} joined project ${projectId}`);
    });
    socket.on('design-update', (data) => {
      socket.to(data.projectId).emit('design-update', data);
    });
    socket.on('disconnect', () => {
      console.log('User disconnected:', socket.id);
    });
  });
  \<close>
  Everything else they rely on is socket.io: its table of rooms, \<open>socket.join\<close>,
  \<open>socket.to(room).emit\<close> and what the library does when a socket connects or
  disconnects. These primitives are modelled below as the library documents them.
\<close>

subsection \<open>JavaScript values received from clients\<close>

type_synonym sid = string

text \<open>
  The values a client can send: \<open>undefined\<close> (an argument left out), \<open>null\<close>, booleans,
  numbers, strings, arrays and objects (a list of fields; the first binding of a name
  is the field's value).
\<close>

datatype jsval =
    JUndefined
  | JNull
  | JBool bool
  | JNum real
  | JStr string
  | JArr "jsval list"
  | JObj "(string \<times> jsval) list"

datatype js_error = TypeError

text \<open>
  Property access \<open>v.k\<close>, for a property name \<open>k\<close> that no prototype defines (such as
  \<open>projectId\<close> and \<open>sequence\<close>): reading a property of \<open>undefined\<close> or \<open>null\<close>
  throws a TypeError, an object yields the field or \<open>undefined\<close>, any other value
  yields \<open>undefined\<close>.
\<close>

fun js_get :: "jsval \<Rightarrow> string \<Rightarrow> js_error + jsval" where
  "js_get JUndefined k = Inl TypeError"
| "js_get JNull k = Inl TypeError"
| "js_get (JObj fs) k = Inr (case map_of fs k of None \<Rightarrow> JUndefined | Some v \<Rightarrow> v)"
| "js_get v k = Inr JUndefined"

text \<open>
  The handlers pass what the client sent to \<open>socket.join\<close> and \<open>socket.to\<close> as it is,
  and socket.io keeps its rooms in a \<open>Map\<close> whose keys are those values. A \<open>Map\<close>
  compares primitive keys by value and arrays and objects by reference. Every message
  is parsed into new arrays and objects, so a room entered under an array or an object
  can be named by no value that arrives later.
\<close>

fun by_reference :: "jsval \<Rightarrow> bool" where
  "by_reference (JArr vs) = True"
| "by_reference (JObj fs) = True"
| "by_reference v = False"

subsection \<open>Server state\<close>

text \<open>A packet written to one socket: the event name and its argument.\<close>

record packet =
  recipient :: sid
  ev_name :: string
  ev_data :: jsval

text \<open>The lines the handlers write with \<open>console.log\<close>.\<close>

datatype log_line =
    LogConnected sid
  | LogJoined sid jsval
  | LogDisconnected sid

text \<open>
  \<open>sockets\<close> are the connected sockets, \<open>rooms\<close> is socket.io's table from a room name
  to the room's members (a JavaScript \<open>Map\<close> of \<open>Set\<close>s: a set is kept as the list of
  its elements in insertion order), \<open>outbox\<close> collects every packet sent to a client and
  \<open>console\<close> every line logged. The table holds the rooms with a primitive name; the
  rooms entered under an array or an object, which nothing can name again, are left
  out. The handlers keep no state of their own: the source has no counter, no
  per-connection record and no table besides the library's.
\<close>

record server =
  sockets :: "sid list"
  rooms :: "jsval \<rightharpoonup> sid list"
  outbox :: "packet list"
  console :: "log_line list"

definition init :: server where
  "init = \<lparr>sockets = [], rooms = Map.empty, outbox = [], console = []\<rparr>"

text \<open>The members of the room a value is the name of.\<close>

definition members :: "server \<Rightarrow> jsval \<Rightarrow> sid list" where
  "members st k =
     (if by_reference k then []
      else case rooms st k of None \<Rightarrow> [] | Some ms \<Rightarrow> ms)"

subsection \<open>socket.io primitives\<close>

text \<open>\<open>Set.prototype.add\<close>: an element already present stays where it is.\<close>

definition set_add :: "'a \<Rightarrow> 'a list \<Rightarrow> 'a list" where
  "set_add x xs = (if x \<in> set xs then xs else xs @ [x])"

text \<open>The elements of a list in the order of their first occurrence.\<close>

definition uniq :: "'a list \<Rightarrow> 'a list" where
  "uniq xs = fold set_add xs []"

text \<open>
  \<open>socket.join\<close> and \<open>socket.to\<close> take one room name or an array of room names
  (\<open>Array.isArray(rooms) ? rooms : [rooms]\<close>).
\<close>

fun room_names :: "jsval \<Rightarrow> jsval list" where
  "room_names (JArr vs) = vs"
| "room_names v = [v]"

text \<open>
  \<open>socket.join(room)\<close>: each room named is created when it does not exist and the
  socket is added to its members. No other room is touched.
\<close>

definition join_one :: "sid \<Rightarrow> jsval \<Rightarrow> server \<Rightarrow> server" where
  "join_one s k st =
     (if by_reference k then st
      else st\<lparr>rooms := (rooms st)(k \<mapsto> set_add s (members st k))\<rparr>)"

definition socket_join :: "sid \<Rightarrow> jsval \<Rightarrow> server \<Rightarrow> server" where
  "socket_join s v st = fold (join_one s) (room_names v) st"

text \<open>
  What the library does when a socket goes away: the socket leaves every room it is in,
  and a room left without members is deleted from the table.
\<close>

definition leave_all :: "sid \<Rightarrow> server \<Rightarrow> server" where
  "leave_all s st = st\<lparr>rooms := (\<lambda>r.
     case rooms st r of
       None \<Rightarrow> None
     | Some ms \<Rightarrow>
         if s \<in> set ms
         then (if removeAll s ms = [] then None else Some (removeAll s ms))
         else Some ms)\<rparr>"

text \<open>
  The sockets a value addresses as the argument of \<open>socket.to\<close>: the members of the
  room it names; for an array of names the members of all the rooms named, each socket
  once; and, in socket.io 4, every connected socket for the empty array, which names
  no room and so restricts the broadcast to none.
\<close>

fun room_members :: "server \<Rightarrow> jsval \<Rightarrow> sid list" where
  "room_members st (JArr vs) =
     (if vs = [] then sockets st else uniq (concat (map (members st) vs)))"
| "room_members st v = members st v"

text \<open>
  \<open>socket.to(room).emit(ev, d)\<close>: one packet to every socket addressed, the emitting
  socket excepted. The exception is taken as the library's documentation states it: the
  emitting socket and no other.
\<close>

definition socket_to_emit :: "sid \<Rightarrow> jsval \<Rightarrow> string \<Rightarrow> jsval \<Rightarrow> server \<Rightarrow> server" where
  "socket_to_emit s target ev d st =
     st\<lparr>outbox := outbox st @
       map (\<lambda>m. \<lparr>recipient = m, ev_name = ev, ev_data = d\<rparr>)
         (filter (\<lambda>m. m \<noteq> s) (room_members st target))\<rparr>"

subsection \<open>The handlers\<close>

text \<open>
  A new socket: the library registers it and puts it in the room named by its own id;
  the handler logs the connection.
\<close>

definition connection :: "sid \<Rightarrow> server \<Rightarrow> server" where
  "connection s st =
     (let st1 = socket_join s (JStr s) (st\<lparr>sockets := set_add s (sockets st)\<rparr>)
      in st1\<lparr>console := console st1 @ [LogConnected s]\<rparr>)"

definition join_project :: "sid \<Rightarrow> jsval \<Rightarrow> server \<Rightarrow> server" where
  "join_project s projectId st =
     (let st1 = socket_join s projectId st
      in st1\<lparr>console := console st1 @ [LogJoined s projectId]\<rparr>)"

text \<open>
  \<open>data.projectId\<close> is evaluated first: on \<open>undefined\<close> or \<open>null\<close> the handler throws
  before anything is sent.
\<close>

definition design_update :: "sid \<Rightarrow> jsval \<Rightarrow> server \<Rightarrow> js_error + server" where
  "design_update s data st =
     (case js_get data ''projectId'' of
        Inl e \<Rightarrow> Inl e
      | Inr target \<Rightarrow> Inr (socket_to_emit s target ''design-update'' data st))"

text \<open>
  A socket that goes away: the library has taken it out of its rooms when the handler
  runs; the handler logs.
\<close>

definition disconnect :: "sid \<Rightarrow> server \<Rightarrow> server" where
  "disconnect s st =
     (let st1 = leave_all s (st\<lparr>sockets := removeAll s (sockets st)\<rparr>)
      in st1\<lparr>console := console st1 @ [LogDisconnected s]\<rparr>)"

text \<open>The packets a step has added to the outbox.\<close>

definition sent :: "server \<Rightarrow> server \<Rightarrow> packet list" where
  "sent st st' = drop (length (outbox st)) (outbox st')"

text \<open>The arguments of the packets a socket has been sent, oldest first.\<close>

definition received :: "sid \<Rightarrow> packet list \<Rightarrow> jsval list" where
  "received s ps = map ev_data (filter (\<lambda>p. recipient p = s) ps)"

text \<open>
  What socket \<open>m\<close> is sent when socket \<open>s\<close> submits \<open>data\<close> in state \<open>st\<close>: nothing when
  the handler throws.
\<close>

definition delivered :: "sid \<Rightarrow> jsval \<Rightarrow> server \<Rightarrow> sid \<Rightarrow> jsval list" where
  "delivered s data st m =
     (case design_update s data st of
        Inl e \<Rightarrow> []
      | Inr st' \<Rightarrow> received m (sent st st'))"

text \<open>
  The states the server reaches: sockets connect under fresh ids, and only a
  connected socket triggers a handler.
\<close>

inductive reachable :: "server \<Rightarrow> bool" where
  reach_init: "reachable init"
| reach_connection:
    "reachable st \<Longrightarrow> s \<notin> set (sockets st) \<Longrightarrow> reachable (connection s st)"
| reach_join_project:
    "reachable st \<Longrightarrow> s \<in> set (sockets st) \<Longrightarrow> reachable (join_project s v st)"
| reach_design_update:
    "reachable st \<Longrightarrow> s \<in> set (sockets st) \<Longrightarrow> design_update s data st = Inr st' \<Longrightarrow>
     reachable st'"
| reach_disconnect:
    "reachable st \<Longrightarrow> s \<in> set (sockets st) \<Longrightarrow> reachable (disconnect s st)"

subsection \<open>Scenarios\<close>

text \<open>Sockets C1 and C2 are connected and both have joined project P1.\<close>

definition two_in_P1 :: server where
  "two_in_P1 =
     join_project ''C2'' (JStr ''P1'') (join_project ''C1'' (JStr ''P1'')
       (connection ''C2'' (connection ''C1'' init)))"

text \<open>Sockets C1 and C2 are connected; only C2 has joined project P2.\<close>

definition only_C2_in_P2 :: server where
  "only_C2_in_P2 =
     join_project ''C2'' (JStr ''P2'') (connection ''C2'' (connection ''C1'' init))"


text \<open>
  C1 was alone in P1 and has gone; C2 and C3 connected afterwards and joined P1.
\<close>

definition P1_recreated :: server where
  "P1_recreated =
     join_project ''C3'' (JStr ''P1'') (join_project ''C2'' (JStr ''P1'')
       (connection ''C3'' (connection ''C2''
         (disconnect ''C1'' (join_project ''C1'' (JStr ''P1'') (connection ''C1'' init))))))"

definition update_X :: "string \<Rightarrow> jsval" where
  "update_X r = JObj [(''projectId'', JStr r), (''payload'', JStr ''X'')]"

section \<open>Simple3DViewer: rotation and zoom\<close>

text \<open>
  The state hooks of the component. JavaScript numbers are modelled as real numbers.
\<close>

record xy =
  xc :: real
  yc :: real

record viewer =
  viewMode :: string
  rotation :: xy
  zoom :: real
  isDragging :: bool
  dragStart :: xy

definition initial_viewer :: viewer where
  "initial_viewer =
     \<lparr>viewMode = ''perspective'', rotation = \<lparr>xc = 0, yc = 0\<rparr>, zoom = 1,
      isDragging = False, dragStart = \<lparr>xc = 0, yc = 0\<rparr>\<rparr>"

definition handleMouseDown :: "bool \<Rightarrow> real \<Rightarrow> real \<Rightarrow> viewer \<Rightarrow> viewer" where
  "handleMouseDown readOnly clientX clientY v =
     (if readOnly then v
      else v\<lparr>isDragging := True, dragStart := \<lparr>xc = clientX, yc = clientY\<rparr>\<rparr>)"

definition handleMouseMove :: "bool \<Rightarrow> real \<Rightarrow> real \<Rightarrow> viewer \<Rightarrow> viewer" where
  "handleMouseMove readOnly clientX clientY v =
     (if \<not> isDragging v \<or> readOnly then v
      else
        let deltaX = clientX - xc (dragStart v);
            deltaY = clientY - yc (dragStart v)
        in v\<lparr>rotation := \<lparr>xc = xc (rotation v) + deltaY * 0.5,
                            yc = yc (rotation v) + deltaX * 0.5\<rparr>,
              dragStart := \<lparr>xc = clientX, yc = clientY\<rparr>\<rparr>)"

definition handleMouseUp :: "viewer \<Rightarrow> viewer" where
  "handleMouseUp v = v\<lparr>isDragging := False\<rparr>"

text \<open>
  \<^verbatim>\<open>
  const handleWheel = (e) => {
    if (readOnly) return;
    e.preventDefault();
    const delta = e.deltaY > 0 ? 0.9 : 1.1;
    setZoom(prev => Math.max(0.1, Math.min(3, prev * delta)));
  };
  \<close>
\<close>

definition handleWheel :: "bool \<Rightarrow> real \<Rightarrow> viewer \<Rightarrow> viewer" where
  "handleWheel readOnly deltaY v =
     (if readOnly then v
      else
        let delta = (if deltaY > 0 then 0.9 else 1.1)
        in v\<lparr>zoom := max 0.1 (min 3 (zoom v * delta))\<rparr>)"

definition changeViewMode :: "string \<Rightarrow> viewer \<Rightarrow> viewer" where
  "changeViewMode mode v =
     (let v1 = v\<lparr>viewMode := mode\<rparr>
      in if mode = ''top'' then v1\<lparr>rotation := \<lparr>xc = -90, yc = 0\<rparr>\<rparr>
         else if mode = ''front'' then v1\<lparr>rotation := \<lparr>xc = 0, yc = 0\<rparr>\<rparr>
         else if mode = ''side'' then v1\<lparr>rotation := \<lparr>xc = 0, yc = 90\<rparr>\<rparr>
         else v1\<lparr>rotation := \<lparr>xc = 20, yc = 45\<rparr>\<rparr>)"

definition resetView :: "viewer \<Rightarrow> viewer" where
  "resetView v = v\<lparr>rotation := \<lparr>xc = 20, yc = 45\<rparr>, zoom := 1\<rparr>"

text \<open>\<open>exportModel\<close> shows a toast and changes nothing.\<close>

definition exportModel :: "viewer \<Rightarrow> viewer" where
  "exportModel v = v"

text \<open>
  What a user can do to the component: the mouse and wheel events of the viewport
  (\<open>onMouseLeave\<close> is bound to \<open>handleMouseUp\<close>) and the toolbar buttons.
\<close>

datatype viewer_event =
    MouseDown real real
  | MouseMove real real
  | MouseUp
  | MouseLeave
  | Wheel real
  | ChangeViewMode string
  | ResetView
  | ExportModel

fun viewer_step :: "bool \<Rightarrow> viewer_event \<Rightarrow> viewer \<Rightarrow> viewer" where
  "viewer_step readOnly (MouseDown cx cy) v = handleMouseDown readOnly cx cy v"
| "viewer_step readOnly (MouseMove cx cy) v = handleMouseMove readOnly cx cy v"
| "viewer_step readOnly MouseUp v = handleMouseUp v"
| "viewer_step readOnly MouseLeave v = handleMouseUp v"
| "viewer_step readOnly (Wheel deltaY) v = handleWheel readOnly deltaY v"
| "viewer_step readOnly (ChangeViewMode mode) v = changeViewMode mode v"
| "viewer_step readOnly ResetView v = resetView v"
| "viewer_step readOnly ExportModel v = exportModel v"

text \<open>
  A sequence of interactions, each with the value the \<open>readOnly\<close> prop has when it
  happens.
\<close>

fun viewer_run :: "(bool \<times> viewer_event) list \<Rightarrow> viewer \<Rightarrow> viewer" where
  "viewer_run [] v = v"
| "viewer_run ((readOnly, e) # es) v = viewer_run es (viewer_step readOnly e v)"

section \<open>DrawingCanvas: the objects on the canvas\<close>

text \<open>
  The objects the component puts on the fabric canvas, with the options its code gives
  them; a free-drawn path is described by its path data.
\<close>

datatype shape =
    IText string int int string int string
      \<comment> \<open>text, left, top, fontFamily, fontSize, fill\<close>
  | Rect int int int int string string int
      \<comment> \<open>left, top, width, height, fill, stroke, strokeWidth\<close>
  | Circle int int int string string int
      \<comment> \<open>left, top, radius, fill, stroke, strokeWidth\<close>
  | Line "int list" string int "int list option"
      \<comment> \<open>points, stroke, strokeWidth, strokeDashArray\<close>
  | Path string string int
      \<comment> \<open>path data, stroke, strokeWidth\<close>

text \<open>
  A fabric object is a JavaScript object: it has an identity, and two objects made by
  two \<open>new\<close> are different objects even when all their properties agree. \<open>obj_id\<close> is
  that identity: the number of objects created before this one.
\<close>

record fabric_object =
  obj_id :: nat
  shape_of :: shape

record canvas =
  objects :: "fabric_object list"
  backgroundColor :: string
  isDrawingMode :: bool
  activeObject :: "nat option"
  brushWidth :: int
  brushColour :: string

text \<open>
  The component: \<open>fabricCanvas\<close> is \<open>fabricCanvasRef.current\<close> (\<open>None\<close> until the canvas
  is created), then the state hooks, then the number of fabric objects created so far.
\<close>

record drawing =
  fabricCanvas :: "canvas option"
  selectedTool :: string
  brushSize :: int
  brushColor :: string
  created :: nat

definition unmounted :: drawing where
  "unmounted =
     \<lparr>fabricCanvas = None, selectedTool = ''pen'', brushSize = 2, brushColor = ''#000000'',
      created = 0\<rparr>"

subsection \<open>fabric.Canvas\<close>

text \<open>\<open>canvas.add(ob)\<close> pushes the object onto the canvas's array of objects.\<close>

definition canvas_add :: "fabric_object \<Rightarrow> canvas \<Rightarrow> canvas" where
  "canvas_add ob c = c\<lparr>objects := objects c @ [ob]\<rparr>"

text \<open>
  \<open>canvas.remove(ob)\<close> looks the object up by identity (\<open>indexOf\<close>: the first position
  that holds it) and splices it out; an active object that is removed is no longer
  active. An object that is not on the canvas changes nothing.
\<close>

fun remove_object :: "nat \<Rightarrow> fabric_object list \<Rightarrow> fabric_object list" where
  "remove_object i [] = []"
| "remove_object i (ob # obs) = (if obj_id ob = i then obs else ob # remove_object i obs)"

definition canvas_remove :: "fabric_object \<Rightarrow> canvas \<Rightarrow> canvas" where
  "canvas_remove ob c =
     (if obj_id ob \<in> set (map obj_id (objects c))
      then c\<lparr>objects := remove_object (obj_id ob) (objects c),
             activeObject := (if activeObject c = Some (obj_id ob) then None else activeObject c)\<rparr>
      else c)"

text \<open>\<open>loadFromJSON\<close> creates one new object for each entry of the saved data.\<close>

fun enliven :: "nat \<Rightarrow> shape list \<Rightarrow> fabric_object list" where
  "enliven n [] = []"
| "enliven n (sh # shs) = \<lparr>obj_id = n, shape_of = sh\<rparr> # enliven (Suc n) shs"

subsection \<open>Effects\<close>

text \<open>
  The first effect creates the canvas, loads \<open>initialData\<close> when it is given and sets
  the brush. It runs when the component is mounted, in its initial state.
\<close>

definition mount :: "bool \<Rightarrow> shape list option \<Rightarrow> drawing \<Rightarrow> drawing" where
  "mount readOnly initialData d =
     (let loaded = (case initialData of None \<Rightarrow> [] | Some shs \<Rightarrow> enliven (created d) shs)
      in d\<lparr>fabricCanvas := Some
             \<lparr>objects = loaded, backgroundColor = ''#ffffff'', isDrawingMode = \<not> readOnly,
              activeObject = None, brushWidth = brushSize d, brushColour = brushColor d\<rparr>,
           created := created d + length loaded\<rparr>)"

text \<open>
  The second effect runs after a render in which \<open>brushSize\<close>, \<open>brushColor\<close>,
  \<open>selectedTool\<close> or \<open>readOnly\<close> has changed.
\<close>

definition sync_brush :: "bool \<Rightarrow> drawing \<Rightarrow> drawing" where
  "sync_brush readOnly d =
     (case fabricCanvas d of
        None \<Rightarrow> d
      | Some c \<Rightarrow>
          d\<lparr>fabricCanvas := Some
              (c\<lparr>brushWidth := brushSize d, brushColour := brushColor d,
                 isDrawingMode := (selectedTool d = ''pen'' \<and> \<not> readOnly)\<rparr>)\<rparr>)"

subsection \<open>The toolbar's functions\<close>

text \<open>
  The toolbar, with the tool buttons, the brush settings and the Undo, Clear, Export and
  Save buttons, is rendered only when the component is not read-only:
  \<^verbatim>\<open>{!readOnly && ( <div> ... <button onClick={undo}> ... </div> )}\<close>.
  The toolbar's functions (the tool change, clear, undo, save and export) are called
  from these buttons and from nowhere else.
\<close>

definition toolbar_rendered :: "bool \<Rightarrow> bool" where
  "toolbar_rendered readOnly = (\<not> readOnly)"

text \<open>Putting a newly created object on the canvas, when there is one to put it on.\<close>

definition add_new :: "bool \<Rightarrow> shape \<Rightarrow> drawing \<Rightarrow> drawing" where
  "add_new readOnly sh d =
     (case fabricCanvas d of
        None \<Rightarrow> d
      | Some c \<Rightarrow>
          if readOnly then d
          else d\<lparr>fabricCanvas := Some (canvas_add \<lparr>obj_id = created d, shape_of = sh\<rparr> c),
                 created := Suc (created d)\<rparr>)"

definition addText :: "bool \<Rightarrow> drawing \<Rightarrow> drawing" where
  "addText readOnly d =
     (case fabricCanvas d of
        None \<Rightarrow> d
      | Some c \<Rightarrow>
          if readOnly then d
          else
            let t = \<lparr>obj_id = created d,
                     shape_of = IText ''Click to edit text'' 100 100 ''Arial'' 20 (brushColor d)\<rparr>
            in d\<lparr>fabricCanvas := Some ((canvas_add t c)\<lparr>activeObject := Some (obj_id t)\<rparr>),
                 created := Suc (created d)\<rparr>)"

definition addRectangle :: "bool \<Rightarrow> drawing \<Rightarrow> drawing" where
  "addRectangle readOnly d =
     add_new readOnly (Rect 100 100 100 100 ''transparent'' (brushColor d) (brushSize d)) d"

definition addCircle :: "bool \<Rightarrow> drawing \<Rightarrow> drawing" where
  "addCircle readOnly d =
     add_new readOnly (Circle 100 100 50 ''transparent'' (brushColor d) (brushSize d)) d"

definition addLine :: "bool \<Rightarrow> drawing \<Rightarrow> drawing" where
  "addLine readOnly d =
     add_new readOnly (Line [50, 100, 200, 100] (brushColor d) (brushSize d) None) d"

definition addArrow :: "bool \<Rightarrow> drawing \<Rightarrow> drawing" where
  "addArrow readOnly d =
     add_new readOnly (Line [50, 100, 200, 100] (brushColor d) (brushSize d) (Some [5, 5])) d"

definition clearCanvas :: "bool \<Rightarrow> drawing \<Rightarrow> drawing" where
  "clearCanvas readOnly d =
     (case fabricCanvas d of
        None \<Rightarrow> d
      | Some c \<Rightarrow>
          if readOnly then d
          else d\<lparr>fabricCanvas := Some
                 (c\<lparr>objects := [], activeObject := None, backgroundColor := ''#ffffff''\<rparr>)\<rparr>)"

text \<open>
  \<^verbatim>\<open>
  const undo = () => {
    if (fabricCanvasRef.current && !readOnly) {
      const objects = fabricCanvasRef.current.getObjects();
      if (objects.length > 0) {
        fabricCanvasRef.current.remove(objects[objects.length - 1]);
        fabricCanvasRef.current.renderAll();
      }
    }
  };
  \<close>
\<close>

definition undo :: "bool \<Rightarrow> drawing \<Rightarrow> drawing" where
  "undo readOnly d =
     (case fabricCanvas d of
        None \<Rightarrow> d
      | Some c \<Rightarrow>
          if readOnly then d
          else if length (objects c) > 0
            then d\<lparr>fabricCanvas := Some (canvas_remove (objects c ! (length (objects c) - 1)) c)\<rparr>
            else d)"

definition set_drawing_mode :: "bool \<Rightarrow> drawing \<Rightarrow> drawing" where
  "set_drawing_mode b d =
     (case fabricCanvas d of
        None \<Rightarrow> d
      | Some c \<Rightarrow> d\<lparr>fabricCanvas := Some (c\<lparr>isDrawingMode := b\<rparr>)\<rparr>)"

definition handleToolChange :: "bool \<Rightarrow> string \<Rightarrow> drawing \<Rightarrow> drawing" where
  "handleToolChange readOnly tool d =
     (let d1 = d\<lparr>selectedTool := tool\<rparr>
      in if tool = ''pen'' then set_drawing_mode True d1
         else if tool = ''select'' then set_drawing_mode False d1
         else if tool = ''text'' then addText readOnly d1
         else if tool = ''rectangle'' then addRectangle readOnly d1
         else if tool = ''circle'' then addCircle readOnly d1
         else if tool = ''line'' then addLine readOnly d1
         else if tool = ''arrow'' then addArrow readOnly d1
         else set_drawing_mode False d1)"

text \<open>
  Free drawing: in drawing mode fabric adds the path drawn with the brush; the
  \<open>path:created\<close> handler, when not read-only, sets its stroke and width from the brush
  values of the render that created the canvas, the initial ones.
\<close>

definition draw_path :: "bool \<Rightarrow> string \<Rightarrow> drawing \<Rightarrow> drawing" where
  "draw_path readOnly pd d =
     (case fabricCanvas d of
        None \<Rightarrow> d
      | Some c \<Rightarrow>
          if isDrawingMode c
          then d\<lparr>fabricCanvas := Some (canvas_add
                   \<lparr>obj_id = created d,
                    shape_of = (if readOnly then Path pd (brushColour c) (brushWidth c)
                                else Path pd (brushColor unmounted) (brushSize unmounted))\<rparr> c),
                 created := Suc (created d)\<rparr>
          else d)"

text \<open>
  Selecting an object on the canvas makes it the active object; the
  \<open>selection:created\<close> handler discards the selection when read-only.
\<close>

definition select_object :: "bool \<Rightarrow> nat \<Rightarrow> drawing \<Rightarrow> drawing" where
  "select_object readOnly i d =
     (case fabricCanvas d of
        None \<Rightarrow> d
      | Some c \<Rightarrow>
          if i \<in> set (map obj_id (objects c)) \<and> \<not> isDrawingMode c
          then d\<lparr>fabricCanvas := Some (c\<lparr>activeObject := (if readOnly then None else Some i)\<rparr>)\<rparr>
          else d)"

text \<open>
  What happens to a mounted component. Saving and exporting read the canvas and change
  nothing. After a step that changes the tool or the brush the second effect runs.
\<close>

datatype drawing_event =
    ToolChange string
  | DrawPath string
  | SelectObject nat
  | Undo
  | Clear
  | SetBrushSize int
  | SetBrushColor string
  | SaveCanvas
  | ExportAsImage

fun handle :: "bool \<Rightarrow> drawing_event \<Rightarrow> drawing \<Rightarrow> drawing" where
  "handle readOnly (ToolChange tool) d = handleToolChange readOnly tool d"
| "handle readOnly (DrawPath pd) d = draw_path readOnly pd d"
| "handle readOnly (SelectObject i) d = select_object readOnly i d"
| "handle readOnly Undo d = undo readOnly d"
| "handle readOnly Clear d = clearCanvas readOnly d"
| "handle readOnly (SetBrushSize n) d = d\<lparr>brushSize := n\<rparr>"
| "handle readOnly (SetBrushColor col) d = d\<lparr>brushColor := col\<rparr>"
| "handle readOnly SaveCanvas d = d"
| "handle readOnly ExportAsImage d = d"

definition drawing_step :: "bool \<Rightarrow> drawing_event \<Rightarrow> drawing \<Rightarrow> drawing" where
  "drawing_step readOnly e d =
     (let d' = handle readOnly e d
      in if selectedTool d' \<noteq> selectedTool d \<or> brushSize d' \<noteq> brushSize d \<or>
            brushColor d' \<noteq> brushColor d
         then sync_brush readOnly d' else d')"

fun drawing_run :: "bool \<Rightarrow> drawing_event list \<Rightarrow> drawing \<Rightarrow> drawing" where
  "drawing_run readOnly [] d = d"
| "drawing_run readOnly (e # es) d = drawing_run readOnly es (drawing_step readOnly e d)"

text \<open>The component once mounted, and the objects on its canvas.\<close>

definition mounted :: "bool \<Rightarrow> shape list option \<Rightarrow> drawing" where
  "mounted readOnly initialData = sync_brush readOnly (mount readOnly initialData unmounted)"

definition canvas_objects :: "drawing \<Rightarrow> fabric_object list" where
  "canvas_objects d = (case fabricCanvas d of None \<Rightarrow> [] | Some c \<Rightarrow> objects c)"

text \<open>
  Identities are handed out in the order of creation: the objects on a canvas are in
  that order, and all of them were created before the next object will be.
\<close>

definition ids_ok :: "nat \<Rightarrow> fabric_object list \<Rightarrow> bool" where
  "ids_ok n obs = (sorted_wrt (<) (map obj_id obs) \<and> (\<forall>ob \<in> set obs. obj_id ob < n))"

definition drawing_ok :: "drawing \<Rightarrow> bool" where
  "drawing_ok d = ids_ok (created d) (canvas_objects d)"

subsection \<open>Scenarios\<close>

text \<open>An editable canvas on which a rectangle, then a circle have been put.\<close>

definition two_shapes :: drawing where
  "two_shapes =
     drawing_run False [ToolChange ''rectangle'', ToolChange ''circle''] (mounted False None)"

text \<open>An editable canvas just mounted, with nothing on it.\<close>

definition blank :: drawing where
  "blank = drawing_run False [] (mounted False None)"

section \<open>Basic facts about the primitives\<close>

lemma set_set_add: "set (set_add x xs) = insert x (set xs)"
  by (auto simp: set_add_def)

lemma distinct_set_add: "distinct xs \<Longrightarrow> distinct (set_add x xs)"
  by (auto simp: set_add_def)

lemma fold_set_add: "distinct acc \<Longrightarrow>
  distinct (fold set_add xs acc) \<and> set (fold set_add xs acc) = set xs \<union> set acc"
  by (induction xs arbitrary: acc) (auto simp: distinct_set_add set_set_add)

lemma distinct_uniq: "distinct (uniq xs)"
  using fold_set_add [of "[]" xs] by (simp add: uniq_def)

lemma set_uniq: "set (uniq xs) = set xs"
  using fold_set_add [of "[]" xs] by (simp add: uniq_def)

lemma room_names_key: "\<not> by_reference k \<Longrightarrow> room_names k = [k]"
  by (cases k) simp_all

lemma room_members_key: "\<not> by_reference k \<Longrightarrow> room_members st k = members st k"
  by (cases k) simp_all

lemma members_by_reference: "by_reference k \<Longrightarrow> members st k = []"
  by (simp add: members_def)

lemma members_join_one:
  "members (join_one s k st) r =
     (if r = k \<and> \<not> by_reference k then set_add s (members st k) else members st r)"
  unfolding join_one_def members_def by simp

lemma fields_join_one:
  "sockets (join_one s k st) = sockets st"
  "outbox (join_one s k st) = outbox st"
  "console (join_one s k st) = console st"
  by (simp_all add: join_one_def)

lemma fields_fold_join:
  "sockets (fold (join_one s) ks st) = sockets st \<and>
   outbox (fold (join_one s) ks st) = outbox st \<and>
   console (fold (join_one s) ks st) = console st"
  by (induction ks arbitrary: st) (simp_all add: fields_join_one)

lemma fields_socket_join:
  "sockets (socket_join s v st) = sockets st \<and> outbox (socket_join s v st) = outbox st \<and>
   console (socket_join s v st) = console st"
  by (simp add: socket_join_def fields_fold_join)

lemma members_socket_join_key:
  "\<not> by_reference k \<Longrightarrow>
   members (socket_join s k st) r = (if r = k then set_add s (members st k) else members st r)"
  by (simp add: socket_join_def room_names_key members_join_one)

lemma members_fold_join_mono:
  "set (members st r) \<subseteq> set (members (fold (join_one s) ks st) r)"
proof (induction ks arbitrary: st)
  case Nil
  show ?case by simp
next
  case (Cons k ks)
  have "set (members st r) \<subseteq> set (members (join_one s k st) r)"
    by (auto simp: members_join_one set_set_add)
  also have "\<dots> \<subseteq> set (members (fold (join_one s) ks (join_one s k st)) r)"
    by (rule Cons.IH)
  finally show ?case by simp
qed

lemma distinct_fold_join:
  "(\<And>r. distinct (members st r)) \<Longrightarrow> distinct (members (fold (join_one s) ks st) r)"
proof (induction ks arbitrary: st)
  case Nil
  then show ?case by simp
next
  case (Cons k ks)
  have "distinct (members (join_one s k st) r')" for r'
    using Cons.prems by (simp add: members_join_one distinct_set_add)
  then show ?case
    using Cons.IH [of "join_one s k st"] by simp
qed

lemma members_console_update [simp]: "members (st\<lparr>console := c\<rparr>) r = members st r"
  by (simp add: members_def)

lemma members_sockets_update [simp]: "members (st\<lparr>sockets := c\<rparr>) r = members st r"
  by (simp add: members_def)

lemma members_connection:
  "members (connection s st) r =
     (if r = JStr s then set_add s (members st (JStr s)) else members st r)"
  by (simp add: connection_def Let_def members_socket_join_key)

lemma members_join_project_key:
  "\<not> by_reference k \<Longrightarrow>
   members (join_project s k st) r = (if r = k then set_add s (members st k) else members st r)"
  by (simp add: join_project_def Let_def members_socket_join_key)

lemma members_join_project_mono:
  "set (members st r) \<subseteq> set (members (join_project s v st) r)"
  by (simp add: join_project_def Let_def socket_join_def members_fold_join_mono)

lemma members_leave_all: "members (leave_all s st) r = removeAll s (members st r)"
  by (auto simp: members_def leave_all_def split: option.splits)

lemma members_disconnect: "members (disconnect s st) r = removeAll s (members st r)"
  by (simp add: disconnect_def Let_def members_leave_all)

lemma members_socket_to_emit: "members (socket_to_emit s target ev d st) r = members st r"
  by (simp add: members_def socket_to_emit_def)

lemma sockets_join_project: "sockets (join_project s v st) = sockets st"
  by (simp add: join_project_def Let_def fields_socket_join)

lemma sockets_connection: "sockets (connection s st) = set_add s (sockets st)"
  by (simp add: connection_def Let_def fields_socket_join)

lemma sockets_disconnect: "sockets (disconnect s st) = removeAll s (sockets st)"
  by (simp add: disconnect_def Let_def leave_all_def)

lemma outbox_join_project: "outbox (join_project s v st) = outbox st"
  by (simp add: join_project_def Let_def fields_socket_join)



lemma outbox_connection: "outbox (connection s st) = outbox st"
  by (simp add: connection_def Let_def fields_socket_join)

lemma design_update_Inr:
  "js_get data ''projectId'' = Inr target \<Longrightarrow>
   design_update s data st = Inr (socket_to_emit s target ''design-update'' data st)"
  by (simp add: design_update_def)

lemma design_update_InrD:
  "design_update s data st = Inr st' \<Longrightarrow>
   \<exists>target. js_get data ''projectId'' = Inr target \<and>
     st' = socket_to_emit s target ''design-update'' data st"
  by (auto simp: design_update_def split: sum.splits)

lemma sent_socket_to_emit:
  "sent st (socket_to_emit s target ev d st) =
     map (\<lambda>m. \<lparr>recipient = m, ev_name = ev, ev_data = d\<rparr>)
       (filter (\<lambda>m. m \<noteq> s) (room_members st target))"
  by (simp add: sent_def socket_to_emit_def)

lemma received_map_packet:
  "received m (map (\<lambda>x. \<lparr>recipient = x, ev_name = ev, ev_data = d\<rparr>) xs) =
     replicate (length (filter (\<lambda>x. x = m) xs)) d"
  by (induction xs) (auto simp: received_def)

lemma delivered_eq:
  "js_get data ''projectId'' = Inr target \<Longrightarrow>
   delivered s data st m =
     replicate (length (filter (\<lambda>x. x = m) (filter (\<lambda>x. x \<noteq> s) (room_members st target)))) data"
  by (simp add: delivered_def design_update_Inr sent_socket_to_emit received_map_packet)

lemma delivered_throw:
  "js_get data ''projectId'' = Inl e \<Longrightarrow> delivered s data st m = []"
  by (simp add: delivered_def design_update_def)

lemma members_init: "members init r = []"
  by (simp add: init_def members_def)

lemma reachable_distinct_members: "reachable st \<Longrightarrow> distinct (members st r)"
proof (induction arbitrary: r rule: reachable.induct)
  case reach_init
  show ?case by (simp add: members_init)
next
  case (reach_connection st s)
  then show ?case by (simp add: members_connection distinct_set_add)
next
  case (reach_join_project st s v)
  then show ?case
    by (simp add: join_project_def Let_def socket_join_def distinct_fold_join)
next
  case (reach_design_update st s data st')
  then show ?case by (auto dest!: design_update_InrD simp: members_socket_to_emit)
next
  case (reach_disconnect st s)
  then show ?case by (simp add: members_disconnect distinct_removeAll)
qed

lemma reachable_distinct_sockets: "reachable st \<Longrightarrow> distinct (sockets st)"
proof (induction rule: reachable.induct)
  case reach_init
  show ?case by (simp add: init_def)
next
  case (reach_connection st s)
  then show ?case by (simp add: sockets_connection distinct_set_add)
next
  case (reach_join_project st s v)
  then show ?case by (simp add: sockets_join_project)
next
  case (reach_design_update st s data st')
  then show ?case by (auto dest!: design_update_InrD simp: socket_to_emit_def)
next
  case (reach_disconnect st s)
  then show ?case by (simp add: sockets_disconnect distinct_removeAll)
qed

lemma reachable_distinct_room_members: "reachable st \<Longrightarrow> distinct (room_members st target)"
  by (cases target)
     (simp_all add: reachable_distinct_members reachable_distinct_sockets distinct_uniq)

lemma reachable_two_in_P1: "reachable two_in_P1"
  unfolding two_in_P1_def
  by (intro reachable.intros)
     (simp_all add: sockets_join_project sockets_connection set_add_def init_def)

lemma members_two_in_P1:
  "members two_in_P1 r =
     (if r = JStr ''P1'' then [''C1'', ''C2'']
      else if r = JStr ''C2'' then [''C2'']
      else if r = JStr ''C1'' then [''C1''] else [])"
  by (simp add: two_in_P1_def members_join_project_key members_connection set_add_def
      members_init)

lemma members_only_C2_in_P2:
  "members only_C2_in_P2 r =
     (if r = JStr ''P2'' then [''C2'']
      else if r = JStr ''C2'' then [''C2'']
      else if r = JStr ''C1'' then [''C1''] else [])"
  by (simp add: only_C2_in_P2_def members_join_project_key members_connection set_add_def
      members_init)


lemma outbox_only_C2_in_P2: "outbox only_C2_in_P2 = []"
  by (simp add: only_C2_in_P2_def outbox_join_project outbox_connection init_def)


lemma members_P1_recreated: "members P1_recreated (JStr ''P1'') = [''C2'', ''C3'']"
  by (simp add: P1_recreated_def members_join_project_key members_connection members_disconnect
      set_add_def members_init)

lemma js_get_update_X:
  "js_get (update_X r) ''projectId'' = Inr (JStr r)"
  "js_get (update_X r) ''sequence'' = Inr JUndefined"
  by (simp_all add: update_X_def)

lemma rooms_disconnect_last:
  "members st r = [s] \<Longrightarrow> rooms (disconnect s st) r = None"
  by (auto simp: disconnect_def Let_def leave_all_def members_def split: option.splits if_splits)

lemma rooms_join_project_absent:
  "\<not> by_reference r \<Longrightarrow> rooms st r = None \<Longrightarrow> rooms (join_project s r st) r = Some [s]"
  by (simp add: join_project_def Let_def socket_join_def room_names_key join_one_def members_def
      set_add_def)

section \<open>The claims about the relay\<close>

subsection \<open>C1: sequence numbers\<close>

text \<open>
  C1 says that submitting an update assigns the room's next sequence number (1, 2, ...)
  and that the delivered event carries it. The handler does not: with C1 and C2 in
  project P1, the update \<open>{projectId: 'P1', payload: 'X'}\<close> of C1 reaches C2 as it was
  sent, and its \<open>sequence\<close> is \<open>undefined\<close>, not 1.
\<close>

theorem sequence_not_assigned_counterexample:
  "delivered ''C1'' (update_X ''P1'') two_in_P1 ''C2'' = [update_X ''P1''] \<and>
   js_get (update_X ''P1'') ''sequence'' = Inr JUndefined \<and>
   js_get (update_X ''P1'') ''sequence'' \<noteq> Inr (JNum 1)"
  by (simp add: delivered_eq [OF js_get_update_X(1)] members_two_in_P1 js_get_update_X(2))

text \<open>
  C1, as the code has it: the relay assigns no sequence number. Whatever a socket is
  sent for an update has in its \<open>sequence\<close> property what the sender's data had there,
  and relaying an update leaves the rooms, the connected sockets and the log as they
  were: nothing is counted.
\<close>

theorem design_update_sequence_passthrough:
  "(\<forall>v \<in> set (delivered s data st m). js_get v ''sequence'' = js_get data ''sequence'') \<and>
   (\<forall>st'. design_update s data st = Inr st' \<longrightarrow>
      rooms st' = rooms st \<and> sockets st' = sockets st \<and> console st' = console st)"
proof -
  have "v = data" if "v \<in> set (delivered s data st m)" for v
  proof (cases "js_get data ''projectId''")
    case (Inl e)
    with that show ?thesis by (simp add: delivered_throw)
  next
    case (Inr target)
    with that show ?thesis by (simp add: delivered_eq)
  qed
  moreover have "rooms st' = rooms st \<and> sockets st' = sockets st \<and> console st' = console st"
    if "design_update s data st = Inr st'" for st'
    using design_update_InrD [OF that] by (auto simp: socket_to_emit_def)
  ultimately show ?thesis by blast
qed

theorem design_update_sequence_passthrough_witness:
  "delivered ''C1'' (JObj [(''projectId'', JStr ''P1''), (''sequence'', JNum 7)]) two_in_P1 ''C2''
     = [JObj [(''projectId'', JStr ''P1''), (''sequence'', JNum 7)]] \<and>
   js_get (JObj [(''projectId'', JStr ''P1''), (''sequence'', JNum 7)]) ''sequence''
     = Inr (JNum 7) \<and>
   design_update ''C1'' (JObj [(''projectId'', JStr ''P1''), (''sequence'', JNum 7)]) two_in_P1
     = Inr (socket_to_emit ''C1'' (JStr ''P1'') ''design-update''
         (JObj [(''projectId'', JStr ''P1''), (''sequence'', JNum 7)]) two_in_P1) \<and>
   rooms (socket_to_emit ''C1'' (JStr ''P1'') ''design-update''
         (JObj [(''projectId'', JStr ''P1''), (''sequence'', JNum 7)]) two_in_P1)
     = rooms two_in_P1"
  using design_update_sequence_passthrough
    [of "''C1''" "JObj [(''projectId'', JStr ''P1''), (''sequence'', JNum 7)]" two_in_P1 "''C2''"]
  by (simp add: delivered_eq [of _ "JStr ''P1''"] members_two_in_P1 design_update_Inr)

subsection \<open>C2: updates from outside the room\<close>

text \<open>
  C2 says that an update whose sender is not a member of the target room is rejected
  with NotInRoom and broadcast to nobody. The handler checks no membership: C1 has
  joined nothing, C2 is in project P2, and the update of C1 for P2 is delivered to C2.
\<close>

theorem not_in_room_counterexample:
  "''C1'' \<notin> set (members only_C2_in_P2 (JStr ''P2'')) \<and>
   design_update ''C1'' (update_X ''P2'') only_C2_in_P2 =
     Inr (only_C2_in_P2\<lparr>outbox :=
       [\<lparr>recipient = ''C2'', ev_name = ''design-update'', ev_data = update_X ''P2''\<rparr>]\<rparr>)"
  by (simp add: members_only_C2_in_P2 design_update_Inr [OF js_get_update_X(1)] socket_to_emit_def
      outbox_only_C2_in_P2)

text \<open>
  C2, as the code has it: an update from a socket that is not a member of the room its
  \<open>projectId\<close> names is not rejected, whatever value the \<open>projectId\<close> is. It is sent to
  every member of that room (to every socket the value addresses); the sender is sent
  nothing (no error either), stays connected, and no membership changes.
\<close>

theorem design_update_by_non_member:
  assumes "js_get data ''projectId'' = Inr target" and "s \<notin> set (room_members st target)"
  shows "(\<not> by_reference target \<longrightarrow> room_members st target = members st target) \<and>
         (\<exists>st'. design_update s data st = Inr st' \<and>
           sent st st' = map (\<lambda>m. \<lparr>recipient = m, ev_name = ''design-update'', ev_data = data\<rparr>)
                           (room_members st target) \<and>
           received s (sent st st') = [] \<and>
           sockets st' = sockets st \<and> rooms st' = rooms st)"
proof -
  let ?st' = "socket_to_emit s target ''design-update'' data st"
  have f: "filter (\<lambda>m. m \<noteq> s) (room_members st target) = room_members st target"
    using assms(2) by (auto intro: filter_True)
  have 1: "design_update s data st = Inr ?st'"
    by (rule design_update_Inr [OF assms(1)])
  have 2: "sent st ?st' =
      map (\<lambda>m. \<lparr>recipient = m, ev_name = ''design-update'', ev_data = data\<rparr>)
        (room_members st target)"
    by (simp add: sent_socket_to_emit f)
  have 3: "received s (sent st ?st') = []"
    using assms(2) by (auto simp: 2 received_map_packet filter_empty_conv)
  have 4: "sockets ?st' = sockets st \<and> rooms ?st' = rooms st"
    by (simp add: socket_to_emit_def)
  from 1 2 3 4 show ?thesis by (auto simp: room_members_key)
qed

theorem design_update_by_non_member_witness:
  "room_members only_C2_in_P2 (JStr ''P2'') = members only_C2_in_P2 (JStr ''P2'') \<and>
   (\<exists>st'. design_update ''C1'' (update_X ''P2'') only_C2_in_P2 = Inr st' \<and>
     sent only_C2_in_P2 st' =
       [\<lparr>recipient = ''C2'', ev_name = ''design-update'', ev_data = update_X ''P2''\<rparr>] \<and>
     received ''C1'' (sent only_C2_in_P2 st') = [] \<and>
     sockets st' = sockets only_C2_in_P2 \<and> rooms st' = rooms only_C2_in_P2)"
  using design_update_by_non_member [of "update_X ''P2''" "JStr ''P2''" "''C1''" only_C2_in_P2]
  by (simp add: js_get_update_X members_only_C2_in_P2)

subsection \<open>C3: rooms of one connection\<close>

text \<open>
  C3 says that a connection is in at most one room, a join taking it out of the room it
  was in. \<open>socket.join\<close> only adds: C1 joins A, then B, and is a member of both.
\<close>

theorem two_rooms_counterexample:
  "''C1'' \<in> set (members
      (join_project ''C1'' (JStr ''B'')
        (join_project ''C1'' (JStr ''A'') (connection ''C1'' init))) (JStr ''A'')) \<and>
   ''C1'' \<in> set (members
      (join_project ''C1'' (JStr ''B'')
        (join_project ''C1'' (JStr ''A'') (connection ''C1'' init))) (JStr ''B'')) \<and>
   JStr ''A'' \<noteq> JStr ''B''"
  by (simp add: members_join_project_key members_connection set_add_def members_init)

text \<open>
  C3, as the code has it: a join removes nobody from any room, so every membership held
  before the join, of this or any other connection, is still held after it; and
  joining room B, whatever primitive value names it, adds the connection to B and
  changes the members of no other room.
\<close>

theorem join_project_keeps_memberships:
  "(\<forall>m r. m \<in> set (members st r) \<longrightarrow> m \<in> set (members (join_project s b st) r)) \<and>
   (\<not> by_reference b \<longrightarrow>
      s \<in> set (members (join_project s b st) b) \<and>
      (\<forall>r. r \<noteq> b \<longrightarrow> members (join_project s b st) r = members st r))"
  using members_join_project_mono [of st _ s b]
  by (auto simp: members_join_project_key set_set_add)

theorem join_project_keeps_memberships_witness:
  "''C1'' \<in> set (members
      (join_project ''C1'' (JStr ''B'')
        (join_project ''C1'' (JStr ''A'') (connection ''C1'' init))) (JStr ''B'')) \<and>
   members (join_project ''C1'' (JStr ''B'')
        (join_project ''C1'' (JStr ''A'') (connection ''C1'' init))) (JStr ''A'')
     = members (join_project ''C1'' (JStr ''A'') (connection ''C1'' init)) (JStr ''A'') \<and>
   ''C1'' \<in> set (members (join_project ''C1'' (JStr ''A'') (connection ''C1'' init)) (JStr ''A'')) \<and>
   ''C1'' \<in> set (members
      (join_project ''C1'' (JStr ''B'')
        (join_project ''C1'' (JStr ''A'') (connection ''C1'' init))) (JStr ''A''))"
  using join_project_keeps_memberships
    [of "join_project ''C1'' (JStr ''A'') (connection ''C1'' init)" "''C1''" "JStr ''B''"]
  by (simp add: members_join_project_key members_connection set_add_def members_init)

subsection \<open>C4: who is sent an update\<close>

text \<open>
  C4: an update for a room is delivered to every member of the room but the sender, once
  each, and the sender is not sent its own update. This holds in every state the server
  reaches, whatever the size of the room and whatever value the \<open>projectId\<close> is (the
  members of the room it names, or of the rooms an array of names addresses).
\<close>

theorem design_update_broadcast:
  assumes "reachable st" and "js_get data ''projectId'' = Inr target"
  shows "(\<forall>m \<in> set (room_members st target). m \<noteq> s \<longrightarrow> delivered s data st m = [data]) \<and>
         delivered s data st s = [] \<and>
         (\<not> by_reference target \<longrightarrow> room_members st target = members st target)"
proof -
  have d: "distinct (room_members st target)"
    using assms(1) by (rule reachable_distinct_room_members)
  have "delivered s data st m = [data]" if "m \<in> set (room_members st target)" "m \<noteq> s" for m
  proof -
    have "filter (\<lambda>x. x = m) (filter (\<lambda>x. x \<noteq> s) (room_members st target)) =
          filter (\<lambda>x. x = m) (room_members st target)"
      using that(2) by (auto intro: filter_cong)
    moreover have "length (filter (\<lambda>x. x = m) (room_members st target)) = 1"
      using d that(1) by (simp add: distinct_length_filter)
    ultimately show ?thesis
      by (simp add: delivered_eq [OF assms(2)])
  qed
  moreover have "delivered s data st s = []"
    by (simp add: delivered_eq [OF assms(2)])
  ultimately show ?thesis by (auto simp: room_members_key)
qed

theorem design_update_broadcast_witness:
  "reachable two_in_P1 \<and>
   delivered ''C1'' (update_X ''P1'') two_in_P1 ''C2'' = [update_X ''P1''] \<and>
   delivered ''C1'' (update_X ''P1'') two_in_P1 ''C1'' = [] \<and>
   room_members two_in_P1 (JStr ''P1'') = members two_in_P1 (JStr ''P1'')"
  using design_update_broadcast [of two_in_P1 "update_X ''P1''" "JStr ''P1''" "''C1''"]
  by (simp add: reachable_two_in_P1 update_X_def members_two_in_P1)

subsection \<open>C5: disconnecting\<close>

text \<open>
  C5 says that a disconnect removes the connection from its room at once, that a room
  left empty ceases to exist, and that a later join recreates it with \<open>lastSequence\<close>
  reset to 0, so that the first update relayed in the recreated room would carry
  sequence 1. The first two hold. A room has no \<open>lastSequence\<close>: C1 was alone in P1
  and disconnects, P1 is gone; C2 and C3 join P1 again, and the update of C2 reaches C3
  with \<open>sequence\<close> undefined.
\<close>

theorem recreated_room_sequence_counterexample:
  "rooms (disconnect ''C1'' (join_project ''C1'' (JStr ''P1'') (connection ''C1'' init)))
     (JStr ''P1'') = None \<and>
   members P1_recreated (JStr ''P1'') = [''C2'', ''C3''] \<and>
   delivered ''C2'' (update_X ''P1'') P1_recreated ''C3'' = [update_X ''P1''] \<and>
   js_get (update_X ''P1'') ''sequence'' = Inr JUndefined \<and>
   js_get (update_X ''P1'') ''sequence'' \<noteq> Inr (JNum 1)"
  by (simp add: delivered_eq [OF js_get_update_X(1)] members_P1_recreated js_get_update_X(2)
      rooms_disconnect_last members_join_project_key members_connection members_init set_add_def)

text \<open>
  C5, as the code has it: after a disconnect the connection is a member of no room and
  is no longer among the connected sockets; a room whose only member it was is deleted
  from the table, and the next join to that name creates the room anew with the joining
  connection as its only member. A room is its set of members and nothing else.
\<close>

theorem disconnect_leaves_rooms:
  "(\<forall>r. s \<notin> set (members (disconnect s st) r)) \<and>
   s \<notin> set (sockets (disconnect s st)) \<and>
   (\<forall>r. members st r = [s] \<longrightarrow>
      rooms (disconnect s st) r = None \<and>
      (\<forall>s'. rooms (join_project s' r (disconnect s st)) r = Some [s']))"
proof -
  have "\<not> by_reference r" if "members st r = [s]" for r
    using that by (auto simp: members_def split: if_splits)
  then show ?thesis
    by (simp add: members_disconnect sockets_disconnect rooms_disconnect_last
        rooms_join_project_absent)
qed

theorem disconnect_leaves_rooms_witness:
  "''C1'' \<notin> set (members
      (disconnect ''C1'' (join_project ''C1'' (JStr ''P1'') (connection ''C1'' init)))
      (JStr ''P1'')) \<and>
   members (join_project ''C1'' (JStr ''P1'') (connection ''C1'' init)) (JStr ''P1'') = [''C1''] \<and>
   rooms (disconnect ''C1'' (join_project ''C1'' (JStr ''P1'') (connection ''C1'' init)))
     (JStr ''P1'') = None \<and>
   rooms (join_project ''C2'' (JStr ''P1'')
      (disconnect ''C1'' (join_project ''C1'' (JStr ''P1'') (connection ''C1'' init))))
     (JStr ''P1'') = Some [''C2'']"
  using disconnect_leaves_rooms
    [of "''C1''" "join_project ''C1'' (JStr ''P1'') (connection ''C1'' init)"]
  by (simp add: members_join_project_key members_connection set_add_def members_init)

subsection \<open>C6: membership events\<close>



subsection \<open>C7: the update is relayed unchanged\<close>

text \<open>
  C7: what a socket is sent for an update is the very value the sender submitted, under
  the event name design-update. The handler reads the \<open>projectId\<close> of the data to find
  the room and passes the data on whole.
\<close>

theorem design_update_data_unchanged:
  "(\<forall>v \<in> set (delivered s data st m). v = data) \<and>
   (\<forall>st'. design_update s data st = Inr st' \<longrightarrow>
     (\<forall>p \<in> set (sent st st'). ev_name p = ''design-update'' \<and> ev_data p = data))"
proof -
  have "v = data" if "v \<in> set (delivered s data st m)" for v
  proof (cases "js_get data ''projectId''")
    case (Inl e)
    with that show ?thesis by (simp add: delivered_throw)
  next
    case (Inr target)
    with that show ?thesis by (simp add: delivered_eq)
  qed
  moreover have "ev_name p = ''design-update'' \<and> ev_data p = data"
    if "design_update s data st = Inr st'" "p \<in> set (sent st st')" for st' p
    using design_update_InrD [OF that(1)] that(2) by (auto simp: sent_socket_to_emit)
  ultimately show ?thesis by blast
qed

theorem design_update_data_unchanged_witness:
  "delivered ''C2'' (update_X ''P1'') two_in_P1 ''C1'' = [update_X ''P1''] \<and>
   design_update ''C2'' (update_X ''P1'') two_in_P1 =
     Inr (socket_to_emit ''C2'' (JStr ''P1'') ''design-update'' (update_X ''P1'') two_in_P1) \<and>
   sent two_in_P1
     (socket_to_emit ''C2'' (JStr ''P1'') ''design-update'' (update_X ''P1'') two_in_P1) =
     [\<lparr>recipient = ''C1'', ev_name = ''design-update'', ev_data = update_X ''P1''\<rparr>]"
  using design_update_data_unchanged [of "''C2''" "update_X ''P1''" two_in_P1 "''C1''"]
  by (simp add: delivered_eq [OF js_get_update_X(1)] members_two_in_P1
      design_update_Inr [OF js_get_update_X(1)] sent_socket_to_emit)

subsection \<open>C8: the room is the one the data names\<close>



section \<open>The claim about the 3D viewer\<close>

lemma zoom_viewer_step:
  "0.1 \<le> zoom v \<and> zoom v \<le> 3 \<Longrightarrow>
   0.1 \<le> zoom (viewer_step readOnly e v) \<and> zoom (viewer_step readOnly e v) \<le> 3"
  by (cases e)
     (auto simp: handleMouseDown_def handleMouseMove_def handleMouseUp_def handleWheel_def
        changeViewMode_def resetView_def exportModel_def Let_def)

lemma zoom_viewer_run:
  "0.1 \<le> zoom v \<and> zoom v \<le> 3 \<Longrightarrow>
   0.1 \<le> zoom (viewer_run es v) \<and> zoom (viewer_run es v) \<le> 3"
proof (induction es arbitrary: v)
  case Nil
  then show ?case by simp
next
  case (Cons a es)
  obtain readOnly e where a: "a = (readOnly, e)" by (cases a)
  show ?case unfolding a viewer_run.simps
    by (rule Cons.IH) (rule zoom_viewer_step [OF Cons.prems])
qed

text \<open>
  C9: the zoom starts at 1, \<open>resetView\<close> sets it to 1, a wheel event replaces it by the
  product with 0.9 or 1.1 clamped to the interval from 0.1 to 3 (and leaves it alone
  when the viewer is read-only), and after any sequence of interactions with the
  viewer, read-only or not at each of them, it lies between 0.1 and 3.
\<close>

theorem zoom_within_bounds:
  "zoom initial_viewer = 1 \<and> zoom (resetView v) = 1 \<and>
   zoom (handleWheel readOnly deltaY v) =
     (if readOnly then zoom v
      else max 0.1 (min 3 (zoom v * (if deltaY > 0 then 0.9 else 1.1)))) \<and>
   0.1 \<le> zoom (viewer_run es initial_viewer) \<and> zoom (viewer_run es initial_viewer) \<le> 3"
proof -
  have "0.1 \<le> zoom (viewer_run es initial_viewer) \<and> zoom (viewer_run es initial_viewer) \<le> 3"
    by (rule zoom_viewer_run) (simp add: initial_viewer_def)
  then show ?thesis
    by (simp add: initial_viewer_def resetView_def handleWheel_def Let_def)
qed

section \<open>The claim about the drawing canvas\<close>

lemma remove_object_last:
  "distinct (map obj_id obs) \<Longrightarrow> obs \<noteq> [] \<Longrightarrow>
   remove_object (obj_id (last obs)) obs = butlast obs"
  by (induction obs) auto

lemma ids_ok_Nil: "ids_ok n []"
  by (simp add: ids_ok_def)

lemma ids_ok_snoc: "ids_ok n obs \<Longrightarrow> ids_ok (Suc n) (obs @ [\<lparr>obj_id = n, shape_of = sh\<rparr>])"
  by (auto simp: ids_ok_def sorted_wrt_append less_Suc_eq)

lemma set_remove_object: "set (remove_object i obs) \<subseteq> set obs"
  by (induction obs) auto

lemma ids_ok_remove: "ids_ok n obs \<Longrightarrow> ids_ok n (remove_object i obs)"
proof (induction obs)
  case Nil
  then show ?case by simp
next
  case (Cons ob obs)
  then show ?case
    using set_remove_object [of i obs] by (auto simp: ids_ok_def)
qed

lemma enliven_ids:
  "ob \<in> set (enliven n shs) \<Longrightarrow> n \<le> obj_id ob \<and> obj_id ob < n + length shs"
  by (induction shs arbitrary: n) fastforce+

lemma ids_ok_enliven: "ids_ok (n + length shs) (enliven n shs)"
proof (induction shs arbitrary: n)
  case Nil
  then show ?case by (simp add: ids_ok_def)
next
  case (Cons sh shs)
  have "ids_ok (Suc n + length shs) (enliven (Suc n) shs)" by (rule Cons.IH)
  moreover have "n < obj_id ob" if "ob \<in> set (enliven (Suc n) shs)" for ob
    using enliven_ids [OF that] by simp
  ultimately show ?case by (auto simp: ids_ok_def)
qed

lemma length_enliven: "length (enliven n shs) = length shs"
  by (induction shs arbitrary: n) auto

lemma drawing_ok_sync: "drawing_ok d \<Longrightarrow> drawing_ok (sync_brush readOnly d)"
  by (auto simp: drawing_ok_def canvas_objects_def sync_brush_def split: option.splits)

lemma drawing_ok_mounted: "drawing_ok (mounted readOnly init_data)"
proof -
  have "drawing_ok (mount readOnly init_data unmounted)"
    using ids_ok_enliven [of 0]
    by (auto simp: drawing_ok_def canvas_objects_def mount_def unmounted_def ids_ok_Nil Let_def
        length_enliven split: option.splits)
  then show ?thesis unfolding mounted_def by (rule drawing_ok_sync)
qed

lemma drawing_ok_add_new: "drawing_ok d \<Longrightarrow> drawing_ok (add_new readOnly sh d)"
  by (auto simp: drawing_ok_def canvas_objects_def add_new_def canvas_add_def ids_ok_snoc
      split: option.splits)

lemma drawing_ok_selectedTool: "drawing_ok d \<Longrightarrow> drawing_ok (d\<lparr>selectedTool := t\<rparr>)"
  by (simp add: drawing_ok_def canvas_objects_def)

lemma drawing_ok_addText: "drawing_ok d \<Longrightarrow> drawing_ok (addText readOnly d)"
  by (auto simp: drawing_ok_def canvas_objects_def addText_def canvas_add_def ids_ok_snoc Let_def
      split: option.splits)

lemma drawing_ok_set_drawing_mode: "drawing_ok d \<Longrightarrow> drawing_ok (set_drawing_mode b d)"
  by (auto simp: drawing_ok_def canvas_objects_def set_drawing_mode_def split: option.splits)

lemma drawing_ok_handleToolChange: "drawing_ok d \<Longrightarrow> drawing_ok (handleToolChange readOnly tool d)"
  by (simp add: handleToolChange_def Let_def addRectangle_def addCircle_def addLine_def addArrow_def
      drawing_ok_add_new drawing_ok_addText drawing_ok_set_drawing_mode drawing_ok_selectedTool)

lemma drawing_ok_draw_path: "drawing_ok d \<Longrightarrow> drawing_ok (draw_path readOnly pd d)"
  by (auto simp: drawing_ok_def canvas_objects_def draw_path_def canvas_add_def ids_ok_snoc
      split: option.splits)

lemma drawing_ok_select_object: "drawing_ok d \<Longrightarrow> drawing_ok (select_object readOnly i d)"
  by (auto simp: drawing_ok_def canvas_objects_def select_object_def split: option.splits)

lemma drawing_ok_undo: "drawing_ok d \<Longrightarrow> drawing_ok (undo readOnly d)"
  by (auto simp: drawing_ok_def canvas_objects_def undo_def canvas_remove_def ids_ok_remove
      split: option.splits)

lemma drawing_ok_clearCanvas: "drawing_ok d \<Longrightarrow> drawing_ok (clearCanvas readOnly d)"
  by (auto simp: drawing_ok_def canvas_objects_def clearCanvas_def ids_ok_Nil split: option.splits)

lemma drawing_ok_handle: "drawing_ok d \<Longrightarrow> drawing_ok (handle readOnly e d)"
proof (cases e)
  case (SetBrushSize n)
  assume "drawing_ok d" then show ?thesis unfolding SetBrushSize
    by (simp add: drawing_ok_def canvas_objects_def)
next
  case (SetBrushColor col)
  assume "drawing_ok d" then show ?thesis unfolding SetBrushColor
    by (simp add: drawing_ok_def canvas_objects_def)
qed (simp_all add: drawing_ok_handleToolChange drawing_ok_draw_path drawing_ok_select_object
      drawing_ok_undo drawing_ok_clearCanvas)

lemma drawing_ok_step: "drawing_ok d \<Longrightarrow> drawing_ok (drawing_step readOnly e d)"
  by (simp add: drawing_step_def Let_def drawing_ok_handle drawing_ok_sync)

lemma drawing_ok_run: "drawing_ok d \<Longrightarrow> drawing_ok (drawing_run readOnly es d)"
  by (induction es arbitrary: d) (simp_all add: drawing_ok_step)

lemma ids_ok_distinct: "ids_ok n obs \<Longrightarrow> distinct (map obj_id obs)"
  by (simp add: ids_ok_def strict_sorted_iff)

lemma ids_ok_last:
  "ids_ok n obs \<Longrightarrow> ob \<in> set (butlast obs) \<Longrightarrow> obj_id ob < obj_id (last obs)"
proof -
  assume a: "ids_ok n obs" "ob \<in> set (butlast obs)"
  then have ne: "obs \<noteq> []" by auto
  then have "obs = butlast obs @ [last obs]" by simp
  then have "sorted_wrt (<) (map obj_id (butlast obs @ [last obs]))"
    using a(1) by (simp add: ids_ok_def)
  then show ?thesis using a(2) by (simp add: sorted_wrt_append)
qed

lemma undo_unchanged:
  "readOnly \<or> fabricCanvas d = None \<or> canvas_objects d = [] \<Longrightarrow> undo readOnly d = d"
  by (auto simp: undo_def canvas_objects_def split: option.splits)

lemma undo_removes_last:
  assumes "drawing_ok d" "canvas_objects d \<noteq> []"
  shows "canvas_objects (undo False d) = butlast (canvas_objects d)"
proof -
  obtain c where c: "fabricCanvas d = Some c" "objects c \<noteq> []"
    using assms(2) by (auto simp: canvas_objects_def split: option.splits)
  have dist: "distinct (map obj_id (objects c))"
    using assms(1) c(1) by (auto simp: drawing_ok_def canvas_objects_def dest: ids_ok_distinct)
  have "remove_object (obj_id (last (objects c))) (objects c) = butlast (objects c)"
    using dist c(2) by (rule remove_object_last)
  then show ?thesis
    using c by (simp add: undo_def canvas_objects_def canvas_remove_def last_conv_nth)
qed

lemma objects_two_shapes:
  "canvas_objects two_shapes =
     [\<lparr>obj_id = 0, shape_of = Rect 100 100 100 100 ''transparent'' ''#000000'' 2\<rparr>,
      \<lparr>obj_id = 1, shape_of = Circle 100 100 50 ''transparent'' ''#000000'' 2\<rparr>]"
  by code_simp

lemma objects_blank: "canvas_objects blank = []"
  by code_simp

subsection \<open>C10: undo\<close>

text \<open>
  C10: undo is called by the Undo button of the toolbar, which exists when the component
  is not read-only. In every state the component then reaches, undo changes nothing when
  the canvas has no objects (nor when there is no canvas yet), and on a canvas that is
  not empty it removes the last object of the canvas, which is the one created most
  recently; the objects left are the others, unchanged and in their order.
\<close>

theorem undo_removes_most_recent:
  assumes "toolbar_rendered readOnly"
    and "d = drawing_run readOnly es (mounted readOnly initialData)"
  shows "undo readOnly unmounted = unmounted \<and>
         (canvas_objects d = [] \<longrightarrow> undo readOnly d = d) \<and>
         (canvas_objects d \<noteq> [] \<longrightarrow>
            canvas_objects (undo readOnly d) = butlast (canvas_objects d) \<and>
            (\<forall>ob \<in> set (butlast (canvas_objects d)).
               obj_id ob < obj_id (last (canvas_objects d))))"
proof -
  have editable: "\<not> readOnly"
    using assms(1) by (simp add: toolbar_rendered_def)
  have ok: "drawing_ok d"
    unfolding assms(2) by (rule drawing_ok_run) (rule drawing_ok_mounted)
  have 1: "undo readOnly unmounted = unmounted"
    by (rule undo_unchanged) (simp add: unmounted_def)
  have 2: "undo readOnly d = d" if "canvas_objects d = []"
    using that by (simp add: undo_unchanged)
  have 3: "canvas_objects (undo readOnly d) = butlast (canvas_objects d)"
    if "canvas_objects d \<noteq> []"
    using undo_removes_last [OF ok that] editable by simp
  have 4: "obj_id ob < obj_id (last (canvas_objects d))"
    if "ob \<in> set (butlast (canvas_objects d))" for ob
    using ok that unfolding drawing_ok_def by (rule ids_ok_last)
  from 1 2 3 4 show ?thesis by blast
qed

theorem undo_removes_most_recent_witness:
  "toolbar_rendered False \<and>
   canvas_objects two_shapes =
     [\<lparr>obj_id = 0, shape_of = Rect 100 100 100 100 ''transparent'' ''#000000'' 2\<rparr>,
      \<lparr>obj_id = 1, shape_of = Circle 100 100 50 ''transparent'' ''#000000'' 2\<rparr>] \<and>
   canvas_objects (undo False two_shapes) =
     [\<lparr>obj_id = 0, shape_of = Rect 100 100 100 100 ''transparent'' ''#000000'' 2\<rparr>] \<and>
   canvas_objects blank = [] \<and> undo False blank = blank"
proof -
  have t: "toolbar_rendered False"
    by (simp add: toolbar_rendered_def)
  have "canvas_objects (undo False two_shapes) = butlast (canvas_objects two_shapes)"
    using undo_removes_most_recent [OF t two_shapes_def] by (simp add: objects_two_shapes)
  moreover have "undo False blank = blank"
    using undo_removes_most_recent [OF t blank_def] objects_blank by blast
  ultimately show ?thesis
    by (simp add: objects_two_shapes objects_blank t)
qed

end
